theory Spec2Isabelle
  imports Main
begin

section \<open>The surroundings of the notebook\<close>

text \<open>
  The program is the notebook \<^verbatim>\<open>examples/data_connectors/GithubRepositoryReaderDemo.ipynb\<close>.
  Its code cells are run in order, each statement after the other; a Python exception that
  is raised in a statement and caught nowhere ends the run (the notebook has no
  \<^verbatim>\<open>try\<close>).

  Everything the notebook and the library it calls can observe or change is one value, the
  world: the process environment (\<^verbatim>\<open>os.environ\<close>), the files on disk, what the
  cells have displayed, and the rest (object heap, network), which stays abstract.
\<close>

record ('b, 'x) world =
  environ :: "string \<rightharpoonup> string"
  files :: "string \<rightharpoonup> 'b"
  outputs :: "string list"
  ext :: 'x

text \<open>
  A call either raises an exception (\<open>Inl\<close>) or returns a value (\<open>Inr\<close>); in both
  cases it may have changed the world. The exceptions are a type parameter: the notebook
  names none.
\<close>

type_synonym ('b, 'x, 'e, 'a) action = "('b, 'x) world \<Rightarrow> ('e + 'a) \<times> ('b, 'x) world"

text \<open>
  The names the notebook imports from \<^verbatim>\<open>llama_index\<close>. Their code is not part of the
  notebook, so each is a parameter, with the argument list of its call site:
  \<^verbatim>\<open>GithubRepositoryReader(github_token, owner, repo, use_parser, verbose)\<close>,
  \<^verbatim>\<open>reader.load_data(branch)\<close>, \<^verbatim>\<open>GPTSimpleVectorIndex.from_documents(documents)\<close>,
  \<^verbatim>\<open>index.save_to_disk(path)\<close>, \<^verbatim>\<open>index.query(question, verbose)\<close>, and the text of a
  response as the f-string of the last cell formats it.
\<close>

record ('b, 'x, 'e, 'rd, 'd, 'i, 'r) library =
  GithubRepositoryReader ::
    "string option \<Rightarrow> string \<Rightarrow> string \<Rightarrow> bool \<Rightarrow> bool \<Rightarrow> ('b, 'x, 'e, 'rd) action"
  load_data :: "'rd \<Rightarrow> string \<Rightarrow> ('b, 'x, 'e, 'd list) action"
  from_documents :: "'d list \<Rightarrow> ('b, 'x, 'e, 'i) action"
  save_to_disk :: "'i \<Rightarrow> string \<Rightarrow> ('b, 'x, 'e, unit) action"
  query :: "'i \<Rightarrow> string \<Rightarrow> bool \<Rightarrow> ('b, 'x, 'e, 'r) action"
  response_str :: "'r \<Rightarrow> string"

text \<open>
  The library calls of a run, in the order they were made and with their arguments. The
  record of calls is kept beside the world, out of the library's reach.
\<close>

datatype ('rd, 'd, 'i) call =
    Call_GithubRepositoryReader "string option" string string bool bool
  | Call_load_data 'rd string
  | Call_from_documents "'d list"
  | Call_save_to_disk 'i string
  | Call_query 'i string bool
  | Call_display string

type_synonym ('b, 'x, 'rd, 'd, 'i) run_state = "('b, 'x) world \<times> ('rd, 'd, 'i) call list"

type_synonym ('b, 'x, 'e, 'rd, 'd, 'i, 'a) step =
  "('b, 'x, 'rd, 'd, 'i) run_state \<Rightarrow> ('e + 'a) \<times> ('b, 'x, 'rd, 'd, 'i) run_state"

definition invoke ::
  "('rd, 'd, 'i) call \<Rightarrow> ('b, 'x, 'e, 'a) action \<Rightarrow> ('b, 'x, 'e, 'rd, 'd, 'i, 'a) step" where
  "invoke c act s = (case act (fst s) of (r, w') \<Rightarrow> (r, (w', snd s @ [c])))"

text \<open>One statement after another: an exception of the first skips the second.\<close>

definition and_then ::
  "('b, 'x, 'e, 'rd, 'd, 'i, 'a) step \<Rightarrow> ('a \<Rightarrow> ('b, 'x, 'e, 'rd, 'd, 'i, 'c) step)
    \<Rightarrow> ('b, 'x, 'e, 'rd, 'd, 'i, 'c) step" where
  "and_then m f s = (case m s of (Inl e, s') \<Rightarrow> (Inl e, s') | (Inr a, s') \<Rightarrow> f a s')"

definition succeed :: "'a \<Rightarrow> ('b, 'x, 'e, 'rd, 'd, 'i, 'a) step" where
  "succeed a s = (Inr a, s)"

text \<open>
  \<^verbatim>\<open>%env NAME=value\<close> is IPython's magic, not code of the notebook. Its effect when it
  stores the value \<open>v\<close>: the variable is set in the process environment, and the line
  \<^verbatim>\<open>env: NAME=v\<close> is printed to the output of the cell. Here \<open>v\<close> is the value that
  IPython arrives at, which is the text after \<^verbatim>\<open>=\<close> only when IPython has nothing to
  do to it: it strips white space around the text, expands \<^verbatim>\<open>$name\<close> and \<^verbatim>\<open>{expr}\<close>
  in it, and refuses a NUL byte with an exception. \<open>plain_env_value\<close> holds of the texts
  that are stored as they are written, the characters of which keys and tokens are made;
  the two placeholders of the notebook are among them.
\<close>

definition env_magic :: "string \<Rightarrow> string \<Rightarrow> ('b, 'x) world \<Rightarrow> ('b, 'x) world" where
  "env_magic name v w =
    w\<lparr>environ := (environ w)(name \<mapsto> v), outputs := outputs w @ [''env: '' @ name @ ''='' @ v]\<rparr>"


text \<open>\<^verbatim>\<open>os.environ.get(name)\<close>: the value, or \<^verbatim>\<open>None\<close> when the variable is not set.\<close>

definition os_environ_get :: "('b, 'x) world \<Rightarrow> string \<Rightarrow> string option" where
  "os_environ_get w name = environ w name"

text \<open>\<^verbatim>\<open>display(Markdown(text))\<close> adds the text to what the cell shows.\<close>

definition display_Markdown :: "string \<Rightarrow> ('b, 'x) world \<Rightarrow> ('b, 'x) world" where
  "display_Markdown t w = w\<lparr>outputs := outputs w @ [t]\<rparr>"

section \<open>The cells\<close>

text \<open>
  The first cell installs and applies \<^verbatim>\<open>nest_asyncio\<close>; it binds no variable that a
  later cell reads and is left out. Of the second cell the imports are left out.

  The two \<^verbatim>\<open>%env\<close> lines hold placeholders that the reader of the notebook replaces by
  their secrets, so the cells take the two values as arguments; \<open>notebook\<close> below is the
  file as it stands.
\<close>

definition cell2 :: "string \<Rightarrow> ('b, 'x, 'rd, 'd, 'i) run_state \<Rightarrow> ('b, 'x, 'rd, 'd, 'i) run_state" where
  "cell2 key s = apfst (env_magic ''OPENAI_API_KEY'' key) s"

text \<open>
  The third cell is its \<^verbatim>\<open>%env\<close> line followed by its Python statements, from
  \<^verbatim>\<open>github_token = os.environ.get("GITHUB_TOKEN")\<close> to the call of \<^verbatim>\<open>load_data\<close>;
  \<open>cell3_body\<close> is the latter.
\<close>

definition cell3_body ::
  "('b, 'x, 'e, 'rd, 'd, 'i, 'r) library \<Rightarrow> ('b, 'x, 'e, 'rd, 'd, 'i, 'd list) step" where
  "cell3_body lib s =
    (let github_token = os_environ_get (fst s) ''GITHUB_TOKEN'';
         owner = ''jerryjliu'';
         repo = ''gpt_index'';
         branch = ''main''
     in and_then
          (invoke (Call_GithubRepositoryReader github_token owner repo False False)
                  (GithubRepositoryReader lib github_token owner repo False False))
          (\<lambda>reader. invoke (Call_load_data reader branch) (load_data lib reader branch))
          s)"

definition cell3 ::
  "string \<Rightarrow> ('b, 'x, 'e, 'rd, 'd, 'i, 'r) library \<Rightarrow> ('b, 'x, 'e, 'rd, 'd, 'i, 'd list) step" where
  "cell3 tok lib s = cell3_body lib (apfst (env_magic ''GITHUB_TOKEN'' tok) s)"

definition cell4 ::
  "('b, 'x, 'e, 'rd, 'd, 'i, 'r) library \<Rightarrow> 'd list \<Rightarrow> ('b, 'x, 'e, 'rd, 'd, 'i, 'i) step" where
  "cell4 lib documents =
    and_then (invoke (Call_from_documents documents) (from_documents lib documents))
      (\<lambda>index.
        and_then (invoke (Call_save_to_disk index ''github_index.json'')
                         (save_to_disk lib index ''github_index.json''))
          (\<lambda>_. succeed index))"

definition question :: string where
  "question = ''What is the difference between GPTSimpleVectorIndex and GPTListIndex?''"

definition cell5 ::
  "('b, 'x, 'e, 'rd, 'd, 'i, 'r) library \<Rightarrow> 'i \<Rightarrow> ('b, 'x, 'e, 'rd, 'd, 'i, 'r) step" where
  "cell5 lib index = invoke (Call_query index question True) (query lib index question True)"

definition cell6 ::
  "('b, 'x, 'e, 'rd, 'd, 'i, 'r) library \<Rightarrow> 'r \<Rightarrow> ('b, 'x, 'e, 'rd, 'd, 'i, 'r) step" where
  "cell6 lib response s =
    (let t = ''<b>'' @ response_str lib response @ ''</b>''
     in (Inr response, (display_Markdown t (fst s), snd s @ [Call_display t])))"

text \<open>
  A run of all cells from a world \<open>w0\<close>: the exception that ended it or the response, the
  world it left, and the calls it made.
\<close>

definition notebook_with ::
  "string \<Rightarrow> string \<Rightarrow> ('b, 'x, 'e, 'rd, 'd, 'i, 'r) library \<Rightarrow> ('b, 'x) world
    \<Rightarrow> ('e + 'r) \<times> ('b, 'x, 'rd, 'd, 'i) run_state" where
  "notebook_with key tok lib w0 =
    and_then (cell3 tok lib)
      (\<lambda>documents. and_then (cell4 lib documents)
        (\<lambda>index. and_then (cell5 lib index)
          (\<lambda>response. cell6 lib response)))
      (cell2 key (w0, []))"




text \<open>
  The world in which the first library call is made: both variables are set, and both
  \<^verbatim>\<open>%env\<close> lines have printed what they set.
\<close>

definition configured :: "string \<Rightarrow> string \<Rightarrow> ('b, 'x) world \<Rightarrow> ('b, 'x) world" where
  "configured key tok w0 = env_magic ''GITHUB_TOKEN'' tok (env_magic ''OPENAI_API_KEY'' key w0)"

section \<open>Reading a run\<close>

text \<open>
  The first call of every run, and the calls that follow the construction of the index,
  as the cells make them.
\<close>

definition reader_call :: "string \<Rightarrow> ('rd, 'd, 'i) call" where
  "reader_call tok = Call_GithubRepositoryReader (Some tok) ''jerryjliu'' ''gpt_index'' False False"

definition after_construction :: "'i \<Rightarrow> string \<Rightarrow> ('rd, 'd, 'i) call list" where
  "after_construction index t =
    [Call_save_to_disk index ''github_index.json'', Call_query index question True, Call_display t]"

definition is_acquisition :: "('rd, 'd, 'i) call \<Rightarrow> bool" where
  "is_acquisition c = (case c of Call_load_data _ _ \<Rightarrow> True | _ \<Rightarrow> False)"

definition is_construction :: "('rd, 'd, 'i) call \<Rightarrow> bool" where
  "is_construction c = (case c of Call_from_documents _ \<Rightarrow> True | _ \<Rightarrow> False)"



section \<open>The notebook with the persistence step left out\<close>





section \<open>A library to run the cells on\<close>

text \<open>
  A small stand-in for the library, for concrete runs: two documents, the index is the
  list of their texts, the file holds their concatenation, and so does every answer. The
  call named by \<open>failing\<close> raises its own name; no call fails when \<open>failing\<close> names none.
\<close>

definition demo_library ::
  "string \<Rightarrow> (string, unit, string, unit, string, string list, string) library" where
  "demo_library failing =
    \<lparr>GithubRepositoryReader = (\<lambda>github_token owner repo use_parser verbose w.
        if failing = ''GithubRepositoryReader'' then (Inl failing, w) else (Inr (), w)),
     load_data = (\<lambda>reader branch w.
        if failing = ''load_data'' then (Inl failing, w) else (Inr [''Alpha'', ''Beta''], w)),
     from_documents = (\<lambda>documents w.
        if failing = ''from_documents'' then (Inl failing, w) else (Inr documents, w)),
     save_to_disk = (\<lambda>index path w.
        if failing = ''save_to_disk'' then (Inl failing, w)
        else (Inr (), w\<lparr>files := (files w)(path \<mapsto> concat index)\<rparr>)),
     query = (\<lambda>index question verbose w.
        if failing = ''query'' then (Inl failing, w) else (Inr (concat index), w)),
     response_str = (\<lambda>response. response)\<rparr>"

definition empty_world :: "(string, unit) world" where
  "empty_world = \<lparr>environ = Map.empty, files = Map.empty, outputs = [], ext = ()\<rparr>"



section \<open>A run, call by call\<close>

lemmas run_defs = cell2_def cell3_def cell3_body_def cell4_def cell5_def cell6_def
  and_then_def[abs_def] invoke_def[abs_def] succeed_def[abs_def]
  os_environ_get_def configured_def Let_def env_magic_def reader_call_def

text \<open>
  The run of the cells, written out as the sequence of library calls: each call is made
  in the world the call before it left, and the first exception is the outcome.
\<close>

lemma notebook_with_cases:
  "notebook_with key tok lib w0 =
    (case GithubRepositoryReader lib (Some tok) ''jerryjliu'' ''gpt_index'' False False
            (configured key tok w0) of
       (Inl e, w) \<Rightarrow> (Inl e, w, [reader_call tok])
     | (Inr rd, w1) \<Rightarrow>
    (case load_data lib rd ''main'' w1 of
       (Inl e, w) \<Rightarrow> (Inl e, w, [reader_call tok, Call_load_data rd ''main''])
     | (Inr ds, w2) \<Rightarrow>
    (case from_documents lib ds w2 of
       (Inl e, w) \<Rightarrow> (Inl e, w, [reader_call tok, Call_load_data rd ''main'', Call_from_documents ds])
     | (Inr idx, w3) \<Rightarrow>
    (case save_to_disk lib idx ''github_index.json'' w3 of
       (Inl e, w) \<Rightarrow> (Inl e, w, [reader_call tok, Call_load_data rd ''main'', Call_from_documents ds,
                              Call_save_to_disk idx ''github_index.json''])
     | (Inr u, w4) \<Rightarrow>
    (case query lib idx question True w4 of
       (Inl e, w) \<Rightarrow> (Inl e, w, [reader_call tok, Call_load_data rd ''main'', Call_from_documents ds,
                              Call_save_to_disk idx ''github_index.json'',
                              Call_query idx question True])
     | (Inr response, w5) \<Rightarrow>
         (Inr response, display_Markdown (''<b>'' @ response_str lib response @ ''</b>'') w5,
          [reader_call tok, Call_load_data rd ''main'', Call_from_documents ds,
           Call_save_to_disk idx ''github_index.json'', Call_query idx question True,
           Call_display (''<b>'' @ response_str lib response @ ''</b>'')]))))))"
  by (simp add: notebook_with_def run_defs split: prod.splits sum.splits)



lemma demo_run:
  "notebook_with key tok (demo_library ''none'') empty_world =
    (Inr ''AlphaBeta'',
     (configured key tok empty_world)
       \<lparr>files := [''github_index.json'' \<mapsto> ''AlphaBeta''],
        outputs := outputs (configured key tok empty_world) @ [''<b>AlphaBeta</b>'']\<rparr>,
     [reader_call tok, Call_load_data () ''main'', Call_from_documents [''Alpha'', ''Beta'']]
       @ after_construction [''Alpha'', ''Beta''] ''<b>AlphaBeta</b>'')"
  by (simp add: notebook_with_cases demo_library_def configured_def env_magic_def
        empty_world_def display_Markdown_def after_construction_def)



section \<open>Failure of a stage\<close>

text \<open>
  C7. No stage catches or recovers from a failure. Whichever library call of the run is
  the first to raise an exception \<open>e\<close> (the construction of the reader or
  \<^verbatim>\<open>load_data\<close> in acquisition, \<^verbatim>\<open>from_documents\<close> in index construction,
  \<^verbatim>\<open>save_to_disk\<close> in persistence, \<^verbatim>\<open>query\<close> in the query stage), the run ends with
  \<open>e\<close> as its outcome, in the world that call left, and the calls made are those up to
  and including the raising one: no later stage has run.
\<close>

theorem failure_aborts_workflow:
  "(GithubRepositoryReader lib (Some tok) ''jerryjliu'' ''gpt_index'' False False
        (configured key tok w0) = (Inl e, w')
      \<longrightarrow> notebook_with key tok lib w0 = (Inl e, w', [reader_call tok]))
   \<and> (GithubRepositoryReader lib (Some tok) ''jerryjliu'' ''gpt_index'' False False
        (configured key tok w0) = (Inr rd, w1)
      \<and> load_data lib rd ''main'' w1 = (Inl e, w')
      \<longrightarrow> notebook_with key tok lib w0 =
          (Inl e, w', [reader_call tok, Call_load_data rd ''main'']))
   \<and> (GithubRepositoryReader lib (Some tok) ''jerryjliu'' ''gpt_index'' False False
        (configured key tok w0) = (Inr rd, w1)
      \<and> load_data lib rd ''main'' w1 = (Inr ds, w2)
      \<and> from_documents lib ds w2 = (Inl e, w')
      \<longrightarrow> notebook_with key tok lib w0 =
          (Inl e, w', [reader_call tok, Call_load_data rd ''main'', Call_from_documents ds]))
   \<and> (GithubRepositoryReader lib (Some tok) ''jerryjliu'' ''gpt_index'' False False
        (configured key tok w0) = (Inr rd, w1)
      \<and> load_data lib rd ''main'' w1 = (Inr ds, w2)
      \<and> from_documents lib ds w2 = (Inr idx, w3)
      \<and> save_to_disk lib idx ''github_index.json'' w3 = (Inl e, w')
      \<longrightarrow> notebook_with key tok lib w0 =
          (Inl e, w', [reader_call tok, Call_load_data rd ''main'', Call_from_documents ds,
                       Call_save_to_disk idx ''github_index.json'']))
   \<and> (GithubRepositoryReader lib (Some tok) ''jerryjliu'' ''gpt_index'' False False
        (configured key tok w0) = (Inr rd, w1)
      \<and> load_data lib rd ''main'' w1 = (Inr ds, w2)
      \<and> from_documents lib ds w2 = (Inr idx, w3)
      \<and> save_to_disk lib idx ''github_index.json'' w3 = (Inr u, w4)
      \<and> query lib idx question True w4 = (Inl e, w')
      \<longrightarrow> notebook_with key tok lib w0 =
          (Inl e, w', [reader_call tok, Call_load_data rd ''main'', Call_from_documents ds,
                       Call_save_to_disk idx ''github_index.json'',
                       Call_query idx question True]))"
  by (simp add: notebook_with_cases)

text \<open>
  Five runs on the stand-in library, one for each call that can raise. The run in which
  \<^verbatim>\<open>query\<close> raises has written the file; the others have not.
\<close>

theorem failure_aborts_workflow_witness:
  "notebook_with ''k'' ''t'' (demo_library ''GithubRepositoryReader'') empty_world =
     (Inl ''GithubRepositoryReader'', configured ''k'' ''t'' empty_world, [reader_call ''t''])
   \<and> notebook_with ''k'' ''t'' (demo_library ''load_data'') empty_world =
     (Inl ''load_data'', configured ''k'' ''t'' empty_world,
      [reader_call ''t'', Call_load_data () ''main''])
   \<and> notebook_with ''k'' ''t'' (demo_library ''from_documents'') empty_world =
     (Inl ''from_documents'', configured ''k'' ''t'' empty_world,
      [reader_call ''t'', Call_load_data () ''main'', Call_from_documents [''Alpha'', ''Beta'']])
   \<and> notebook_with ''k'' ''t'' (demo_library ''save_to_disk'') empty_world =
     (Inl ''save_to_disk'', configured ''k'' ''t'' empty_world,
      [reader_call ''t'', Call_load_data () ''main'', Call_from_documents [''Alpha'', ''Beta''],
       Call_save_to_disk [''Alpha'', ''Beta''] ''github_index.json''])
   \<and> notebook_with ''k'' ''t'' (demo_library ''query'') empty_world =
     (Inl ''query'',
      (configured ''k'' ''t'' empty_world)\<lparr>files := [''github_index.json'' \<mapsto> ''AlphaBeta'']\<rparr>,
      [reader_call ''t'', Call_load_data () ''main'', Call_from_documents [''Alpha'', ''Beta''],
       Call_save_to_disk [''Alpha'', ''Beta''] ''github_index.json'',
       Call_query [''Alpha'', ''Beta''] question True])"
  using
    failure_aborts_workflow [where lib = "demo_library ''GithubRepositoryReader''"
      and key = "''k''" and tok = "''t''" and ?w0.0 = empty_world
      and e = "''GithubRepositoryReader''" and w' = "configured ''k'' ''t'' empty_world",
      THEN conjunct1]
    failure_aborts_workflow [where lib = "demo_library ''load_data''"
      and key = "''k''" and tok = "''t''" and ?w0.0 = empty_world
      and e = "''load_data''" and w' = "configured ''k'' ''t'' empty_world"
      and rd = "()" and ?w1.0 = "configured ''k'' ''t'' empty_world",
      THEN conjunct2, THEN conjunct1]
    failure_aborts_workflow [where lib = "demo_library ''from_documents''"
      and key = "''k''" and tok = "''t''" and ?w0.0 = empty_world
      and e = "''from_documents''" and w' = "configured ''k'' ''t'' empty_world"
      and rd = "()" and ?w1.0 = "configured ''k'' ''t'' empty_world"
      and ds = "[''Alpha'', ''Beta'']" and ?w2.0 = "configured ''k'' ''t'' empty_world",
      THEN conjunct2, THEN conjunct2, THEN conjunct1]
    failure_aborts_workflow [where lib = "demo_library ''save_to_disk''"
      and key = "''k''" and tok = "''t''" and ?w0.0 = empty_world
      and e = "''save_to_disk''" and w' = "configured ''k'' ''t'' empty_world"
      and rd = "()" and ?w1.0 = "configured ''k'' ''t'' empty_world"
      and ds = "[''Alpha'', ''Beta'']" and ?w2.0 = "configured ''k'' ''t'' empty_world"
      and idx = "[''Alpha'', ''Beta'']" and ?w3.0 = "configured ''k'' ''t'' empty_world",
      THEN conjunct2, THEN conjunct2, THEN conjunct2, THEN conjunct1]
    failure_aborts_workflow [where lib = "demo_library ''query''"
      and key = "''k''" and tok = "''t''" and ?w0.0 = empty_world
      and e = "''query''"
      and w' = "(configured ''k'' ''t'' empty_world)\<lparr>files := [''github_index.json'' \<mapsto> ''AlphaBeta'']\<rparr>"
      and rd = "()" and ?w1.0 = "configured ''k'' ''t'' empty_world"
      and ds = "[''Alpha'', ''Beta'']" and ?w2.0 = "configured ''k'' ''t'' empty_world"
      and idx = "[''Alpha'', ''Beta'']" and ?w3.0 = "configured ''k'' ''t'' empty_world"
      and u = "()"
      and ?w4.0 = "(configured ''k'' ''t'' empty_world)\<lparr>files := [''github_index.json'' \<mapsto> ''AlphaBeta'']\<rparr>",
      THEN conjunct2, THEN conjunct2, THEN conjunct2, THEN conjunct2]
  by (simp add: demo_library_def configured_def env_magic_def empty_world_def)

section \<open>From acquisition to the index\<close>

text \<open>
  C8. In every run in which an index is built, from a document sequence \<open>ds\<close>: the reader
  was constructed and its \<^verbatim>\<open>load_data\<close> returned exactly \<open>ds\<close>; \<^verbatim>\<open>from_documents\<close> is
  applied to \<open>ds\<close> in the very world \<open>w2\<close> that \<^verbatim>\<open>load_data\<close> left, so nothing was added,
  removed or changed in between; the run has one acquisition call and one construction
  call; and what follows the construction is at most \<^verbatim>\<open>save_to_disk\<close>, \<^verbatim>\<open>query\<close> and the
  display, in this order, on the index that \<^verbatim>\<open>from_documents\<close> returned: the notebook
  calls no operation that inserts into the index or rebuilds it.
\<close>

theorem index_built_from_acquired_documents:
  assumes run: "notebook_with key tok lib w0 = (r, w', log)"
      and built: "Call_from_documents ds \<in> set log"
  shows "\<exists>rd w1 w2.
           GithubRepositoryReader lib (Some tok) ''jerryjliu'' ''gpt_index'' False False
             (configured key tok w0) = (Inr rd, w1)
         \<and> load_data lib rd ''main'' w1 = (Inr ds, w2)
         \<and> length (filter is_acquisition log) = 1
         \<and> length (filter is_construction log) = 1
         \<and> (case from_documents lib ds w2 of
              (Inl e, w3) \<Rightarrow>
                r = Inl e \<and> w' = w3
                \<and> log = [reader_call tok, Call_load_data rd ''main'', Call_from_documents ds]
            | (Inr index, w3) \<Rightarrow>
                (\<exists>n t. 0 < n
                   \<and> log = [reader_call tok, Call_load_data rd ''main'', Call_from_documents ds]
                           @ take n (after_construction index t)))"
proof -
  from run built obtain rd w1 where
    R: "GithubRepositoryReader lib (Some tok) ''jerryjliu'' ''gpt_index'' False False
          (configured key tok w0) = (Inr rd, w1)"
    by (auto simp: notebook_with_cases reader_call_def split: prod.splits sum.splits)
  from run built R obtain w2 where L: "load_data lib rd ''main'' w1 = (Inr ds, w2)"
    by (auto simp: notebook_with_cases reader_call_def split: prod.splits sum.splits)
  have counts: "length (filter is_acquisition log) = 1 \<and> length (filter is_construction log) = 1"
    using run R L
    by (auto simp: notebook_with_cases reader_call_def is_acquisition_def is_construction_def
             split: prod.splits sum.splits)
  have tail: "case from_documents lib ds w2 of
              (Inl e, w3) \<Rightarrow>
                r = Inl e \<and> w' = w3
                \<and> log = [reader_call tok, Call_load_data rd ''main'', Call_from_documents ds]
            | (Inr index, w3) \<Rightarrow>
                (\<exists>n t. 0 < n
                   \<and> log = [reader_call tok, Call_load_data rd ''main'', Call_from_documents ds]
                           @ take n (after_construction index t))"
  proof (cases "from_documents lib ds w2")
    case (Pair rf w3)
    show ?thesis
    proof (cases rf)
      case (Inl e)
      with run R L Pair show ?thesis by (simp add: notebook_with_cases)
    next
      case (Inr index)
      note F = Pair [unfolded Inr]
      obtain rs w4 where S: "save_to_disk lib index ''github_index.json'' w3 = (rs, w4)"
        by (cases "save_to_disk lib index ''github_index.json'' w3")
      show ?thesis
      proof (cases rs)
        case (Inl e)
        with run R L F S
        have "\<exists>n t. 0 < n
            \<and> log = [reader_call tok, Call_load_data rd ''main'', Call_from_documents ds]
                @ take n (after_construction index t)"
          by (intro exI [of _ "1::nat"] exI [of _ "[]"])
             (simp add: notebook_with_cases after_construction_def)
        with F show ?thesis by simp
      next
        case (Inr u)
        note S' = S [unfolded Inr]
        obtain rq w5 where Q: "query lib index question True w4 = (rq, w5)"
          by (cases "query lib index question True w4")
        show ?thesis
        proof (cases rq)
          case (Inl e)
          with run R L F S' Q
          have "\<exists>n t. 0 < n
              \<and> log = [reader_call tok, Call_load_data rd ''main'', Call_from_documents ds]
                  @ take n (after_construction index t)"
            by (intro exI [of _ "2::nat"] exI [of _ "[]"])
               (simp add: notebook_with_cases after_construction_def)
          with F show ?thesis by simp
        next
          case (Inr response)
          with run R L F S' Q
          have "\<exists>n t. 0 < n
              \<and> log = [reader_call tok, Call_load_data rd ''main'', Call_from_documents ds]
                  @ take n (after_construction index t)"
            by (intro exI [of _ "3::nat"]
                  exI [of _ "''<b>'' @ response_str lib response @ ''</b>''"])
               (simp add: notebook_with_cases after_construction_def)
          with F show ?thesis by simp
        qed
      qed
    qed
  qed
  have "GithubRepositoryReader lib (Some tok) ''jerryjliu'' ''gpt_index'' False False
             (configured key tok w0) = (Inr rd, w1)
         \<and> load_data lib rd ''main'' w1 = (Inr ds, w2)
         \<and> length (filter is_acquisition log) = 1
         \<and> length (filter is_construction log) = 1
         \<and> (case from_documents lib ds w2 of
              (Inl e, w3) \<Rightarrow>
                r = Inl e \<and> w' = w3
                \<and> log = [reader_call tok, Call_load_data rd ''main'', Call_from_documents ds]
            | (Inr index, w3) \<Rightarrow>
                (\<exists>n t. 0 < n
                   \<and> log = [reader_call tok, Call_load_data rd ''main'', Call_from_documents ds]
                           @ take n (after_construction index t)))"
    using R L counts tail by simp
  then show ?thesis by (intro exI)
qed

text \<open>
  The run of the stand-in library in which nothing fails: the index is built from the two
  documents that \<^verbatim>\<open>load_data\<close> returned.
\<close>

theorem index_built_from_acquired_documents_witness:
  "\<exists>rd w1 w2.
     GithubRepositoryReader (demo_library ''none'') (Some ''t'') ''jerryjliu'' ''gpt_index'' False False
       (configured ''k'' ''t'' empty_world) = (Inr rd, w1)
   \<and> load_data (demo_library ''none'') rd ''main'' w1 = (Inr [''Alpha'', ''Beta''], w2)
   \<and> from_documents (demo_library ''none'') [''Alpha'', ''Beta''] w2 = (Inr [''Alpha'', ''Beta''], w2)
   \<and> snd (snd (notebook_with ''k'' ''t'' (demo_library ''none'') empty_world)) =
       [reader_call ''t'', Call_load_data rd ''main'', Call_from_documents [''Alpha'', ''Beta'']]
       @ after_construction [''Alpha'', ''Beta''] ''<b>AlphaBeta</b>''"
proof -
  note run = demo_run [of "''k''" "''t''"]
  have built: "Call_from_documents [''Alpha'', ''Beta''] \<in>
      set ([reader_call ''t'', Call_load_data () ''main'', Call_from_documents [''Alpha'', ''Beta'']]
       @ after_construction [''Alpha'', ''Beta''] ''<b>AlphaBeta</b>'')"
    by simp
  from index_built_from_acquired_documents [OF run built] run
  show ?thesis by (auto simp: demo_library_def)
qed

section \<open>The two secrets\<close>





section \<open>The persisted file and the answer\<close>




end
